theory Spec2Isabelle
  imports Complex_Main
begin

section \<open>The car genome decoder and formula evaluator (src/lib/carGenetic.ts)\<close>

text \<open>
  A shallow embedding of \<^verbatim>\<open>carGenetic.ts\<close>. Every \<^verbatim>\<open>throw\<close> is a value \<open>Inl e\<close> of
  a sum type that the callers pass on unchanged.

  JavaScript numbers are IEEE-754 doubles, and \<^verbatim>\<open>**\<close> is only approximated by an
  implementation. The model carries numbers as reals and computes with exact operations, so
  the numeric value of a coefficient or of a raw result is an idealisation: it can differ
  from the double the program computes (\<^verbatim>\<open>3 * 10 ** -1\<close> is 0.30000000000000004). The
  properties below are therefore only those that do not depend on such a value: lengths,
  the order and position of the decoded blocks, the error paths, the thresholds of the
  categorical mapping (0.5, 0.25 and 0.75 are exact doubles and comparison is exact) and
  the dependence of each formula on its own gene block. The function \<^verbatim>\<open>loss\<close> computes
  nothing but rounded values and is not modelled.
\<close>

subsection \<open>Constants\<close>

definition CAR_SENSORS_NUM :: nat where
  "CAR_SENSORS_NUM = 16"

definition BIAS_UNITS :: nat where
  "BIAS_UNITS = 1"

definition GENES_PER_NUMBER :: nat where
  "GENES_PER_NUMBER = 8"

definition SIGN_GENE_INDEX :: nat where
  "SIGN_GENE_INDEX = 0"

definition EXPONENT_GENE_INDEX :: nat where
  "EXPONENT_GENE_INDEX = 1"

definition FRACTION_GENE_INDEX :: nat where
  "FRACTION_GENE_INDEX = 4"

definition EXPONENT_BIAS :: int where
  "EXPONENT_BIAS = 2 ^ (FRACTION_GENE_INDEX - EXPONENT_GENE_INDEX - 1) - 1"

definition ENGINE_FORMULA_GENES_NUM :: nat where
  "ENGINE_FORMULA_GENES_NUM = (CAR_SENSORS_NUM + BIAS_UNITS) * GENES_PER_NUMBER"

definition WHEELS_FORMULA_GENES_NUM :: nat where
  "WHEELS_FORMULA_GENES_NUM = (CAR_SENSORS_NUM + BIAS_UNITS) * GENES_PER_NUMBER"

definition GENOME_LENGTH :: nat where
  "GENOME_LENGTH = ENGINE_FORMULA_GENES_NUM + WHEELS_FORMULA_GENES_NUM"

subsection \<open>Data\<close>

text \<open>
  Modelled from the spec: the type \<^verbatim>\<open>Gene\<close> is imported from \<^verbatim>\<open>./genetic\<close>, which
  is not among the sources; the spec calls it "a single binary digit (0 or 1)". \<open>G0\<close> is the
  digit 0 and \<open>G1\<close> the digit 1.
\<close>

datatype Gene = G0 | G1

text \<open>The number a gene stands for in arithmetic (\<^verbatim>\<open>gene * ...\<close>).\<close>

fun gene_number :: "Gene \<Rightarrow> int" where
  "gene_number G0 = 0"
| "gene_number G1 = 1"

text \<open>JavaScript truthiness of a gene in a condition (\<^verbatim>\<open>gene ? a : b\<close>): 0 is falsy.\<close>

fun gene_truthy :: "Gene \<Rightarrow> bool" where
  "gene_truthy G0 = False"
| "gene_truthy G1 = True"

type_synonym Genome = "Gene list"

type_synonym SensorValues = "real list"

type_synonym FormulaCoefficients = "real list"

text \<open>\<^verbatim>\<open>FormulaResult = -1 | 0 | 1\<close>, kept as the number the code returns.\<close>

type_synonym FormulaResult = int

record DecodedGenome =
  engineFormulaCoefficients :: FormulaCoefficients
  wheelsFormulaCoefficients :: FormulaCoefficients

text \<open>The three \<^verbatim>\<open>throw new Error(...)\<close> sites, by their messages.\<close>

datatype error =
    WrongNumbersGenome      \<comment> \<open>'Wrong number of genes in the numbers genome'\<close>
  | WrongNumberGenome       \<comment> \<open>'Wrong number of genes in the number genome'\<close>
  | IncompatiblePolynomial  \<comment> \<open>'Incompatible number polynomial coefficients and variables'\<close>

subsection \<open>Array helpers of the language\<close>

text \<open>
  \<^verbatim>\<open>xs.slice(start, stop)\<close> for indices that are not negative: the elements at
  positions \<open>start \<le> i < min stop (length xs)\<close>, empty when there are none.
  \<^verbatim>\<open>xs.slice(start)\<close> is \<open>drop start xs\<close>.
\<close>

definition slice :: "'a list \<Rightarrow> nat \<Rightarrow> nat \<Rightarrow> 'a list" where
  "slice xs start stop = drop start (take stop xs)"

text \<open>
  \<^verbatim>\<open>xs.reduce((acc, x, i) => f(acc, x, i), init)\<close> and the accumulating
  \<^verbatim>\<open>xs.forEach((x, i) => ...)\<close>: a left-to-right pass that hands the callback the
  element and its index.
\<close>

fun reduce_indexed :: "('b \<Rightarrow> 'a \<Rightarrow> nat \<Rightarrow> 'b) \<Rightarrow> 'a list \<Rightarrow> nat \<Rightarrow> 'b \<Rightarrow> 'b" where
  "reduce_indexed f [] i acc = acc"
| "reduce_indexed f (x # xs) i acc = reduce_indexed f xs (Suc i) (f acc x i)"

subsection \<open>Bit-number codec\<close>

definition binaryArrayToNumber :: "Gene list \<Rightarrow> int" where
  "binaryArrayToNumber genes =
     reduce_indexed
       (\<lambda>result gene geneIndex. result + gene_number gene * 2 ^ (length genes - geneIndex - 1))
       genes 0 0"

definition decodeNumber :: "Gene list \<Rightarrow> error + real" where
  "decodeNumber genes =
     (if length genes \<noteq> GENES_PER_NUMBER then Inl WrongNumberGenome
      else
        let sign = (if gene_truthy (genes ! SIGN_GENE_INDEX) then - 1 else 1 :: real);
            exponentGenes = slice genes EXPONENT_GENE_INDEX FRACTION_GENE_INDEX;
            exponent = binaryArrayToNumber exponentGenes - EXPONENT_BIAS;
            fractionGenes = drop FRACTION_GENE_INDEX genes;
            fraction = binaryArrayToNumber fractionGenes
        in Inr (sign * of_int fraction * (10 powi exponent)))"

subsection \<open>Genome decoder\<close>

function decodeNumbers_loop :: "Gene list \<Rightarrow> nat \<Rightarrow> real list \<Rightarrow> error + real list" where
  "decodeNumbers_loop genes numberIndex numbers =
     (if numberIndex < length genes then
        (case decodeNumber (slice genes numberIndex (numberIndex + GENES_PER_NUMBER)) of
           Inl e \<Rightarrow> Inl e
         | Inr number \<Rightarrow>
             decodeNumbers_loop genes (numberIndex + GENES_PER_NUMBER) (numbers @ [number]))
      else Inr numbers)"
  by pat_completeness auto
termination
  by (relation "measure (\<lambda>(genes, numberIndex, numbers). length genes - numberIndex)")
     (auto simp: GENES_PER_NUMBER_def)

definition decodeNumbers :: "Gene list \<Rightarrow> error + real list" where
  "decodeNumbers genes =
     (if length genes mod GENES_PER_NUMBER \<noteq> 0 then Inl WrongNumbersGenome
      else decodeNumbers_loop genes 0 [])"

definition decodeGenome :: "Genome \<Rightarrow> error + DecodedGenome" where
  "decodeGenome genome =
     (let engineGenes = slice genome 0 ENGINE_FORMULA_GENES_NUM;
          wheelsGenes = slice genome ENGINE_FORMULA_GENES_NUM
                          (ENGINE_FORMULA_GENES_NUM + WHEELS_FORMULA_GENES_NUM)
      in case decodeNumbers engineGenes of
           Inl e \<Rightarrow> Inl e
         | Inr engineCoefficients \<Rightarrow>
             (case decodeNumbers wheelsGenes of
                Inl e \<Rightarrow> Inl e
              | Inr wheelsCoefficients \<Rightarrow>
                  Inr \<lparr>engineFormulaCoefficients = engineCoefficients,
                       wheelsFormulaCoefficients = wheelsCoefficients\<rparr>))"

subsection \<open>Formula evaluator\<close>

definition linearPolynomial :: "real list \<Rightarrow> real list \<Rightarrow> error + real" where
  "linearPolynomial coefficients variables =
     (if length coefficients \<noteq> length variables + 1 then Inl IncompatiblePolynomial
      else Inr (reduce_indexed
        (\<lambda>result coefficient coefficientIndex.
           if coefficientIndex < length variables
           then result + coefficient * variables ! coefficientIndex
           else result + coefficient)
        coefficients 0 0))"

text \<open>\<^verbatim>\<open>Math.E ** -x\<close>: Euler's number raised to a real exponent.\<close>

definition sigmoid :: "real \<Rightarrow> real" where
  "sigmoid x = 1 / (1 + exp 1 powr (- x))"

definition sigmoidToCategorical :: "real \<Rightarrow> real \<Rightarrow> FormulaResult" where
  "sigmoidToCategorical sigmoidValue aroundZeroMargin =
     (if sigmoidValue > 0.5 + aroundZeroMargin / 2 then 1
      else if sigmoidValue < 0.5 - aroundZeroMargin / 2 then - 1
      else 0)"

text \<open>The default value of the parameter \<^verbatim>\<open>aroundZeroMargin\<close>.\<close>

definition aroundZeroMargin_default :: real where
  "aroundZeroMargin_default = 0.5"

definition engineFormula :: "Genome \<Rightarrow> SensorValues \<Rightarrow> error + FormulaResult" where
  "engineFormula genome sensors =
     (case decodeGenome genome of
        Inl e \<Rightarrow> Inl e
      | Inr decoded \<Rightarrow>
          (case linearPolynomial (engineFormulaCoefficients decoded) sensors of
             Inl e \<Rightarrow> Inl e
           | Inr rawResult \<Rightarrow>
               Inr (sigmoidToCategorical (sigmoid rawResult) aroundZeroMargin_default)))"

definition wheelsFormula :: "Genome \<Rightarrow> SensorValues \<Rightarrow> error + FormulaResult" where
  "wheelsFormula genome sensors =
     (case decodeGenome genome of
        Inl e \<Rightarrow> Inl e
      | Inr decoded \<Rightarrow>
          (case linearPolynomial (wheelsFormulaCoefficients decoded) sensors of
             Inl e \<Rightarrow> Inl e
           | Inr rawResult \<Rightarrow>
               Inr (sigmoidToCategorical (sigmoid rawResult) aroundZeroMargin_default)))"

section \<open>Auxiliary facts\<close>

lemmas consts_defs = CAR_SENSORS_NUM_def BIAS_UNITS_def GENES_PER_NUMBER_def SIGN_GENE_INDEX_def
  EXPONENT_GENE_INDEX_def FRACTION_GENE_INDEX_def EXPONENT_BIAS_def ENGINE_FORMULA_GENES_NUM_def
  WHEELS_FORMULA_GENES_NUM_def GENOME_LENGTH_def

subsection \<open>The block loop\<close>

declare decodeNumbers_loop.simps [simp del]

lemma length_slice: "length (slice xs a b) = min b (length xs) - a"
  by (simp add: slice_def)

lemma decodeNumber_isl: "isl (decodeNumber genes) \<longleftrightarrow> length genes \<noteq> 8"
  by (simp add: decodeNumber_def GENES_PER_NUMBER_def Let_def)

lemma decodeNumber_error: "isl (decodeNumber genes) \<Longrightarrow> decodeNumber genes = Inl WrongNumberGenome"
  by (simp add: decodeNumber_def GENES_PER_NUMBER_def Let_def split: if_splits)

lemma decodeNumber_Inr_projr: "length genes = 8 \<Longrightarrow> decodeNumber genes = Inr (projr (decodeNumber genes))"
  using decodeNumber_isl[of genes] by (cases "decodeNumber genes") auto

lemma decodeNumbers_loop_blocks:
  "length genes = i + 8 * n \<Longrightarrow>
   decodeNumbers_loop genes i acc =
     Inr (acc @ map (\<lambda>k. projr (decodeNumber (slice genes (i + 8 * k) (i + 8 * k + 8)))) [0..<n])"
proof (induction n arbitrary: i acc)
  case 0
  then show ?case by (simp add: decodeNumbers_loop.simps[of genes i acc])
next
  case (Suc n)
  let ?f = "\<lambda>j. projr (decodeNumber (slice genes j (j + 8)))"
  have lt: "i < length genes" using Suc.prems by simp
  have "length (slice genes i (i + 8)) = 8" using Suc.prems by (simp add: length_slice)
  then obtain v where dn: "decodeNumber (slice genes i (i + 8)) = Inr v"
    using decodeNumber_Inr_projr by blast
  then have v: "?f i = v" by simp
  have step: "decodeNumbers_loop genes i acc = decodeNumbers_loop genes (i + 8) (acc @ [v])"
    using lt dn by (subst decodeNumbers_loop.simps) (simp add: GENES_PER_NUMBER_def)
  have "length genes = (i + 8) + 8 * n" using Suc.prems by simp
  then have ih: "decodeNumbers_loop genes (i + 8) (acc @ [v]) =
      Inr ((acc @ [v]) @ map (\<lambda>k. ?f (i + 8 + 8 * k)) [0..<n])"
    by (rule Suc.IH)
  have "map (\<lambda>k. ?f (i + 8 * k)) [0..<Suc n] = ?f i # map (\<lambda>k. ?f (i + 8 * Suc k)) [0..<n]"
    by (simp add: map_upt_Suc del: upt_Suc)
  also have "\<dots> = v # map (\<lambda>k. ?f (i + 8 + 8 * k)) [0..<n]"
    by (simp add: v add.assoc)
  finally have maps: "map (\<lambda>k. ?f (i + 8 * k)) [0..<Suc n] = v # map (\<lambda>k. ?f (i + 8 + 8 * k)) [0..<n]" .
  show ?case unfolding step ih maps by simp
qed

lemma decodeNumbers_ok:
  assumes "length genes = 8 * n"
  shows "decodeNumbers genes =
     Inr (map (\<lambda>k. projr (decodeNumber (slice genes (8 * k) (8 * k + 8)))) [0..<n])"
  using decodeNumbers_loop_blocks[of genes 0 n "[]"] assms
  by (simp add: decodeNumbers_def GENES_PER_NUMBER_def)

lemma decodeNumbers_isl: "isl (decodeNumbers genes) \<longleftrightarrow> length genes mod 8 \<noteq> 0"
proof (cases "length genes mod 8 = 0")
  case True
  then obtain n where "length genes = 8 * n" by (auto simp: mod_eq_0_iff_dvd)
  from decodeNumbers_ok[OF this] True show ?thesis by simp
next
  case False
  then show ?thesis by (simp add: decodeNumbers_def GENES_PER_NUMBER_def)
qed

lemma decodeNumbers_error: "isl (decodeNumbers genes) \<Longrightarrow> decodeNumbers genes = Inl WrongNumbersGenome"
  using decodeNumbers_isl[of genes] by (simp add: decodeNumbers_def GENES_PER_NUMBER_def)

subsection \<open>The two blocks of a genome\<close>

lemma slice_take: "b \<le> m \<Longrightarrow> slice (take m xs) a b = slice xs a b"
  by (simp add: slice_def min_def)

lemma slice_drop: "slice (drop m xs) a b = slice xs (m + a) (m + b)"
  by (simp add: slice_def take_drop add.commute)

lemma slice_0: "slice xs 0 b = take b xs"
  by (simp add: slice_def)

lemma decodeGenome_blocks:
  "decodeGenome genome =
     (case decodeNumbers (take 136 genome) of
        Inl e \<Rightarrow> Inl e
      | Inr engineCoefficients \<Rightarrow>
          (case decodeNumbers (drop 136 (take 272 genome)) of
             Inl e \<Rightarrow> Inl e
           | Inr wheelsCoefficients \<Rightarrow>
               Inr \<lparr>engineFormulaCoefficients = engineCoefficients,
                    wheelsFormulaCoefficients = wheelsCoefficients\<rparr>))"
  by (simp add: decodeGenome_def slice_def consts_defs)


lemma block_lengths_arith:
  "(min (n::nat) 136 mod 8 \<noteq> 0 \<or> (min n 272 - 136) mod 8 \<noteq> 0) \<longleftrightarrow> (n < 272 \<and> n mod 8 \<noteq> 0)"
proof -
  consider "n \<le> 136" | "136 < n" "n < 272" | "272 \<le> n" by linarith
  then show ?thesis
  proof cases
    case 1
    then show ?thesis by (simp add: min_def)
  next
    case 2
    then have "n = (n - 136) + 8 * 17" by simp
    then have "n mod 8 = (n - 136) mod 8" by (metis mod_mult_self2)
    with 2 show ?thesis by (simp add: min_def)
  next
    case 3
    then show ?thesis by (simp add: min_def)
  qed
qed

lemma decodeGenome_isl:
  "isl (decodeGenome genome) \<longleftrightarrow> length genome < 272 \<and> length genome mod 8 \<noteq> 0"
proof -
  have "isl (decodeGenome genome) \<longleftrightarrow>
      isl (decodeNumbers (take 136 genome)) \<or> isl (decodeNumbers (drop 136 (take 272 genome)))"
    unfolding decodeGenome_blocks by (simp split: sum.splits)
  also have "\<dots> \<longleftrightarrow> min (length genome) 136 mod 8 \<noteq> 0 \<or> (min (length genome) 272 - 136) mod 8 \<noteq> 0"
    by (simp add: decodeNumbers_isl)
  also have "\<dots> \<longleftrightarrow> length genome < 272 \<and> length genome mod 8 \<noteq> 0"
    by (rule block_lengths_arith)
  finally show ?thesis .
qed

lemma decodeGenome_error:
  "isl (decodeGenome genome) \<Longrightarrow> decodeGenome genome = Inl WrongNumbersGenome"
  unfolding decodeGenome_blocks
  using decodeNumbers_error[of "take 136 genome"] decodeNumbers_error[of "drop 136 (take 272 genome)"]
  by (auto split: sum.splits)

lemma decodeGenome_272:
  assumes "length genome = 272"
  shows "decodeGenome genome =
     Inr \<lparr>engineFormulaCoefficients =
            map (\<lambda>k. projr (decodeNumber (slice genome (8 * k) (8 * k + 8)))) [0..<17],
          wheelsFormulaCoefficients =
            map (\<lambda>k. projr (decodeNumber (slice genome (136 + 8 * k) (136 + 8 * k + 8)))) [0..<17]\<rparr>"
proof -
  have e: "decodeNumbers (take 136 genome) =
      Inr (map (\<lambda>k. projr (decodeNumber (slice (take 136 genome) (8 * k) (8 * k + 8)))) [0..<17])"
    using assms by (intro decodeNumbers_ok[where n = 17]) simp
  have w: "decodeNumbers (drop 136 (take 272 genome)) =
      Inr (map (\<lambda>k. projr (decodeNumber (slice (drop 136 (take 272 genome)) (8 * k) (8 * k + 8)))) [0..<17])"
    using assms by (intro decodeNumbers_ok[where n = 17]) simp
  have e': "map (\<lambda>k. projr (decodeNumber (slice (take 136 genome) (8 * k) (8 * k + 8)))) [0..<17]
     = map (\<lambda>k. projr (decodeNumber (slice genome (8 * k) (8 * k + 8)))) [0..<17]"
    by (rule map_cong[OF refl]) (simp add: slice_take)
  have w': "map (\<lambda>k. projr (decodeNumber (slice (drop 136 (take 272 genome)) (8 * k) (8 * k + 8)))) [0..<17]
     = map (\<lambda>k. projr (decodeNumber (slice genome (136 + 8 * k) (136 + 8 * k + 8)))) [0..<17]"
    by (rule map_cong[OF refl]) (simp add: slice_drop slice_take add.assoc)
  show ?thesis unfolding decodeGenome_blocks e w e' w' by simp
qed

lemma decodeGenome_any_length:
  assumes ok: "272 \<le> length genome \<or> length genome mod 8 = 0"
  shows "decodeGenome genome =
     Inr \<lparr>engineFormulaCoefficients =
            map (\<lambda>k. projr (decodeNumber (slice genome (8 * k) (8 * k + 8))))
              [0..<min (length genome) 136 div 8],
          wheelsFormulaCoefficients =
            map (\<lambda>k. projr (decodeNumber (slice genome (136 + 8 * k) (136 + 8 * k + 8))))
              [0..<(min (length genome) 272 - 136) div 8]\<rparr>"
proof -
  let ?ne = "min (length genome) 136 div 8"
  let ?nw = "(min (length genome) 272 - 136) div 8"
  from ok have "\<not> (length genome < 272 \<and> length genome mod 8 \<noteq> 0)" by auto
  then have mods: "min (length genome) 136 mod 8 = 0" "(min (length genome) 272 - 136) mod 8 = 0"
    using block_lengths_arith[of "length genome"] by auto
  have le: "length (take 136 genome) = 8 * ?ne"
    using mods(1) by (simp add: min.commute) presburger
  have lw: "length (drop 136 (take 272 genome)) = 8 * ?nw"
    using mods(2) by (simp add: min.commute) presburger
  have e: "decodeNumbers (take 136 genome) =
      Inr (map (\<lambda>k. projr (decodeNumber (slice (take 136 genome) (8 * k) (8 * k + 8)))) [0..<?ne])"
    using le by (rule decodeNumbers_ok)
  have w: "decodeNumbers (drop 136 (take 272 genome)) =
      Inr (map (\<lambda>k. projr (decodeNumber (slice (drop 136 (take 272 genome)) (8 * k) (8 * k + 8)))) [0..<?nw])"
    using lw by (rule decodeNumbers_ok)
  have e': "map (\<lambda>k. projr (decodeNumber (slice (take 136 genome) (8 * k) (8 * k + 8)))) [0..<?ne]
     = map (\<lambda>k. projr (decodeNumber (slice genome (8 * k) (8 * k + 8)))) [0..<?ne]"
  proof (rule map_cong[OF refl])
    fix k assume "k \<in> set [0..<?ne]"
    then have "k < ?ne" by simp
    then have "8 * k + 8 \<le> 136" by simp
    then show "projr (decodeNumber (slice (take 136 genome) (8 * k) (8 * k + 8))) =
        projr (decodeNumber (slice genome (8 * k) (8 * k + 8)))"
      by (simp only: slice_take)
  qed
  have w': "map (\<lambda>k. projr (decodeNumber (slice (drop 136 (take 272 genome)) (8 * k) (8 * k + 8)))) [0..<?nw]
     = map (\<lambda>k. projr (decodeNumber (slice genome (136 + 8 * k) (136 + 8 * k + 8)))) [0..<?nw]"
  proof (rule map_cong[OF refl])
    fix k assume "k \<in> set [0..<?nw]"
    then have "k < ?nw" by simp
    then have b: "136 + (8 * k + 8) \<le> 272" by simp
    have "slice (drop 136 (take 272 genome)) (8 * k) (8 * k + 8)
        = slice (take 272 genome) (136 + 8 * k) (136 + (8 * k + 8))"
      by (rule slice_drop)
    also have "\<dots> = slice genome (136 + 8 * k) (136 + (8 * k + 8))"
      using b by (rule slice_take)
    finally show "projr (decodeNumber (slice (drop 136 (take 272 genome)) (8 * k) (8 * k + 8))) =
        projr (decodeNumber (slice genome (136 + 8 * k) (136 + 8 * k + 8)))"
      by (simp only: add.assoc)
  qed
  show ?thesis unfolding decodeGenome_blocks e w e' w' by simp
qed

lemma slice_block_length:
  "a + 8 \<le> length xs \<Longrightarrow> length (slice xs a (a + 8)) = 8"
  by (simp add: length_slice)

lemma map_Inr_projr_blocks:
  assumes "\<And>k. k < n \<Longrightarrow> a + 8 * k + 8 \<le> length genome"
  shows "map Inr (map (\<lambda>k. projr (decodeNumber (slice genome (a + 8 * k) (a + 8 * k + 8)))) [0..<n])
     = map (\<lambda>k. decodeNumber (slice genome (a + 8 * k) (a + 8 * k + 8))) [0..<n]"
  unfolding map_map comp_def
proof (rule map_cong[OF refl])
  fix k assume "k \<in> set [0..<n]"
  then have "k < n" by simp
  then have "a + 8 * k + 8 \<le> length genome" by (rule assms)
  then have "length (slice genome (a + 8 * k) (a + 8 * k + 8)) = 8" by (rule slice_block_length)
  then show "Inr (projr (decodeNumber (slice genome (a + 8 * k) (a + 8 * k + 8)))) =
      decodeNumber (slice genome (a + 8 * k) (a + 8 * k + 8))"
    by (rule decodeNumber_Inr_projr[symmetric])
qed

subsection \<open>The formula evaluator\<close>

lemma linearPolynomial_Inr:
  "length cs = length vs + 1 \<Longrightarrow> \<exists>raw. linearPolynomial cs vs = Inr raw"
  by (simp add: linearPolynomial_def)

lemma linearPolynomial_error:
  "length cs \<noteq> length vs + 1 \<Longrightarrow> linearPolynomial cs vs = Inl IncompatiblePolynomial"
  by (simp add: linearPolynomial_def)

lemma sigmoidToCategorical_range: "sigmoidToCategorical v m \<in> {- 1, 0, 1}"
  by (simp add: sigmoidToCategorical_def)


lemma decodeGenome_one_block:
  "decodeGenome [G0, G0, G0, G0, G0, G0, G0, G1] =
     Inr \<lparr>engineFormulaCoefficients = [1 / 1000], wheelsFormulaCoefficients = []\<rparr>"
  by (simp add: decodeGenome_def decodeNumbers_def decodeNumbers_loop.simps decodeNumber_def
    binaryArrayToNumber_def slice_def consts_defs Let_def power_int_minus)

lemma engineFormula_mismatch:
  assumes "decodeGenome genome = Inr decoded"
    and "length (engineFormulaCoefficients decoded) \<noteq> length sensors + 1"
  shows "engineFormula genome sensors = Inl IncompatiblePolynomial"
  using assms by (simp add: engineFormula_def linearPolynomial_error)

lemma wheelsFormula_mismatch:
  assumes "decodeGenome genome = Inr decoded"
    and "length (wheelsFormulaCoefficients decoded) \<noteq> length sensors + 1"
  shows "wheelsFormula genome sensors = Inl IncompatiblePolynomial"
  using assms by (simp add: wheelsFormula_def linearPolynomial_error)

lemma decodeGenome_272_lengths:
  assumes "length genome = 272"
  obtains decoded where "decodeGenome genome = Inr decoded"
    "length (engineFormulaCoefficients decoded) = 17"
    "length (wheelsFormulaCoefficients decoded) = 17"
  using decodeGenome_272[OF assms] by simp

lemma decodeNumbers_136:
  assumes "length block = 136"
  obtains numbers where "decodeNumbers block = Inr numbers" "length numbers = 17"
  using decodeNumbers_ok[of block 17] assms by simp

lemma engineFormula_272:
  assumes "length genome = 272"
  shows "engineFormula genome sensors =
     (case decodeNumbers (take 136 genome) of
        Inl e \<Rightarrow> Inl e
      | Inr coefficients \<Rightarrow>
          (case linearPolynomial coefficients sensors of
             Inl e \<Rightarrow> Inl e
           | Inr rawResult \<Rightarrow>
               Inr (sigmoidToCategorical (sigmoid rawResult) aroundZeroMargin_default)))"
proof -
  have "length (drop 136 (take 272 genome)) = 136" using assms by simp
  then obtain ws where "decodeNumbers (drop 136 (take 272 genome)) = Inr ws"
    by (rule decodeNumbers_136)
  then show ?thesis
    unfolding engineFormula_def decodeGenome_blocks by (simp split: sum.splits)
qed

lemma wheelsFormula_272:
  assumes "length genome = 272"
  shows "wheelsFormula genome sensors =
     (case decodeNumbers (drop 136 genome) of
        Inl e \<Rightarrow> Inl e
      | Inr coefficients \<Rightarrow>
          (case linearPolynomial coefficients sensors of
             Inl e \<Rightarrow> Inl e
           | Inr rawResult \<Rightarrow>
               Inr (sigmoidToCategorical (sigmoid rawResult) aroundZeroMargin_default)))"
proof -
  have "length (take 136 genome) = 136" using assms by simp
  then obtain es where "decodeNumbers (take 136 genome) = Inr es"
    by (rule decodeNumbers_136)
  moreover have "take 272 genome = genome" using assms by simp
  ultimately show ?thesis
    unfolding wheelsFormula_def decodeGenome_blocks by (simp split: sum.splits)
qed

lemma take_eq_nth:
  assumes "n \<le> length xs" "n \<le> length ys" "\<forall>i<n. xs ! i = ys ! i"
  shows "take n xs = take n ys"
  using assms by (simp add: list_eq_iff_nth_eq)

lemma drop_eq_nth:
  assumes "length xs = length ys" "\<forall>i. n \<le> i \<and> i < length xs \<longrightarrow> xs ! i = ys ! i"
  shows "drop n xs = drop n ys"
  using assms by (simp add: list_eq_iff_nth_eq)

section \<open>Properties\<close>

subsection \<open>Bit-number codec\<close>

text \<open>
  C7. \<open>decodeNumber\<close> raises its error exactly when its input is not 8 genes long, and
  \<open>decodeNumbers\<close> raises its error exactly when the block length is not a multiple of 8;
  the error value carries no decoded number.
\<close>

theorem decode_errors_exact:
  "(isl (decodeNumber genes) \<longleftrightarrow> length genes \<noteq> 8)
   \<and> (decodeNumber genes = Inl WrongNumberGenome \<longleftrightarrow> length genes \<noteq> 8)
   \<and> (isl (decodeNumbers block) \<longleftrightarrow> length block mod 8 \<noteq> 0)
   \<and> (decodeNumbers block = Inl WrongNumbersGenome \<longleftrightarrow> length block mod 8 \<noteq> 0)"
proof -
  have 1: "decodeNumber genes = Inl WrongNumberGenome \<longleftrightarrow> length genes \<noteq> 8"
    using decodeNumber_isl[of genes] decodeNumber_error[of genes] by auto
  have 2: "decodeNumbers block = Inl WrongNumbersGenome \<longleftrightarrow> length block mod 8 \<noteq> 0"
    using decodeNumbers_isl[of block] decodeNumbers_error[of block] by auto
  from 1 2 decodeNumber_isl[of genes] decodeNumbers_isl[of block] show ?thesis by blast
qed

theorem decode_errors_exact_witness:
  "length [G0] \<noteq> 8 \<and> decodeNumber [G0] = Inl WrongNumberGenome
   \<and> length [G1, G0, G1] mod 8 \<noteq> 0 \<and> decodeNumbers [G1, G0, G1] = Inl WrongNumbersGenome
   \<and> length [G0, G0, G0, G0, G0, G0, G0, G1] = 8
   \<and> \<not> isl (decodeNumber [G0, G0, G0, G0, G0, G0, G0, G1])
   \<and> \<not> isl (decodeNumbers [G0, G0, G0, G0, G0, G0, G0, G1])"
  using decode_errors_exact [of "[G0]" "[G1, G0, G1]"]
    decode_errors_exact [of "[G0, G0, G0, G0, G0, G0, G0, G1]" "[G0, G0, G0, G0, G0, G0, G0, G1]"]
  by simp

subsection \<open>Genome decoder\<close>

text \<open>
  C3. For every genome of exactly 272 genes, \<open>decodeGenome\<close> returns a result with
  exactly 17 engine and 17 wheels coefficients. The engine coefficients are what
  \<open>decodeNumbers\<close> gives on the first 136 genes and the wheels coefficients what it gives
  on the next 136; coefficient k of a block is the decoding of the k-th consecutive 8-gene
  sub-block, in order.
\<close>

theorem decodeGenome_fixed_length:
  assumes "length genome = 272"
  shows "\<exists>decoded. decodeGenome genome = Inr decoded
     \<and> length (engineFormulaCoefficients decoded) = 17
     \<and> length (wheelsFormulaCoefficients decoded) = 17
     \<and> decodeNumbers (take 136 genome) = Inr (engineFormulaCoefficients decoded)
     \<and> decodeNumbers (take 136 (drop 136 genome)) = Inr (wheelsFormulaCoefficients decoded)
     \<and> map Inr (engineFormulaCoefficients decoded) =
         map (\<lambda>k. decodeNumber (slice genome (8 * k) (8 * k + 8))) [0..<17]
     \<and> map Inr (wheelsFormulaCoefficients decoded) =
         map (\<lambda>k. decodeNumber (slice genome (136 + 8 * k) (136 + 8 * k + 8))) [0..<17]"
proof -
  let ?E = "map (\<lambda>k. projr (decodeNumber (slice genome (8 * k) (8 * k + 8)))) [0..<17]"
  let ?W = "map (\<lambda>k. projr (decodeNumber (slice genome (136 + 8 * k) (136 + 8 * k + 8)))) [0..<17]"
  let ?d = "\<lparr>engineFormulaCoefficients = ?E, wheelsFormulaCoefficients = ?W\<rparr>"
  have d: "decodeGenome genome = Inr ?d" using assms by (rule decodeGenome_272)
  have tw: "take 136 (drop 136 genome) = drop 136 (take 272 genome)"
    by (simp add: drop_take)
  from d have dd: "decodeNumbers (take 136 genome) = Inr ?E \<and> decodeNumbers (take 136 (drop 136 genome)) = Inr ?W"
    unfolding decodeGenome_blocks tw by (auto split: sum.splits)
  have len: "\<And>k. k < 17 \<Longrightarrow> length (slice genome (8 * k) (8 * k + 8)) = 8"
    "\<And>k. k < 17 \<Longrightarrow> length (slice genome (136 + 8 * k) (136 + 8 * k + 8)) = 8"
    using assms by (simp_all add: length_slice)
  have mE: "map Inr ?E = map (\<lambda>k. decodeNumber (slice genome (8 * k) (8 * k + 8))) [0..<17]"
    unfolding map_map comp_def
  proof (rule map_cong[OF refl])
    fix k assume "k \<in> set [0..<17]"
    then have "k < 17" by simp
    then have "length (slice genome (8 * k) (8 * k + 8)) = 8" by (rule len(1))
    then show "Inr (projr (decodeNumber (slice genome (8 * k) (8 * k + 8)))) =
        decodeNumber (slice genome (8 * k) (8 * k + 8))"
      by (rule decodeNumber_Inr_projr[symmetric])
  qed
  have mW: "map Inr ?W = map (\<lambda>k. decodeNumber (slice genome (136 + 8 * k) (136 + 8 * k + 8))) [0..<17]"
    unfolding map_map comp_def
  proof (rule map_cong[OF refl])
    fix k assume "k \<in> set [0..<17]"
    then have "k < 17" by simp
    then have "length (slice genome (136 + 8 * k) (136 + 8 * k + 8)) = 8" by (rule len(2))
    then show "Inr (projr (decodeNumber (slice genome (136 + 8 * k) (136 + 8 * k + 8)))) =
        decodeNumber (slice genome (136 + 8 * k) (136 + 8 * k + 8))"
      by (rule decodeNumber_Inr_projr[symmetric])
  qed
  show ?thesis
    apply (rule exI[of _ ?d])
    using d dd mE mW by simp
qed

theorem decodeGenome_fixed_length_witness:
  "length (replicate 272 G1) = 272
   \<and> (\<exists>decoded. decodeGenome (replicate 272 G1) = Inr decoded
        \<and> length (engineFormulaCoefficients decoded) = 17
        \<and> length (wheelsFormulaCoefficients decoded) = 17)"
proof -
  have h: "length (replicate 272 G1) = 272" by simp
  from decodeGenome_fixed_length [OF h] obtain decoded where
    "decodeGenome (replicate 272 G1) = Inr decoded"
    "length (engineFormulaCoefficients decoded) = 17"
    "length (wheelsFormulaCoefficients decoded) = 17"
    by blast
  with h show ?thesis by blast
qed

text \<open>
  C1, as stated: every genome whose length is not 272 makes \<open>decodeGenome\<close> raise an
  error. The code has no check of the genome's length: it slices positions 0 to 135 and 136
  to 271 and only the block decoder checks that each slice is a multiple of 8 long. A
  genome of 8 genes is decoded to one engine coefficient and no wheels coefficient.
\<close>

theorem decodeGenome_wrong_length_counterexample:
  "length [G0, G0, G0, G0, G0, G0, G0, G1] \<noteq> 272
   \<and> decodeGenome [G0, G0, G0, G0, G0, G0, G0, G1] =
       Inr \<lparr>engineFormulaCoefficients = [1 / 1000], wheelsFormulaCoefficients = []\<rparr>"
  by (simp add: decodeGenome_one_block)

text \<open>
  C1, amended: \<open>decodeGenome\<close> raises an error, the one of the block decoder, exactly
  when the genome has fewer than 272 genes and its length is not a multiple of 8. For every
  other length it returns a result: the engine coefficients are the decodings, in order, of
  the consecutive 8-gene sub-blocks of the genes present at positions 0 to 135, and the
  wheels coefficients those of the genes present at positions 136 to 271; genes from
  position 272 on are ignored.
\<close>

theorem decodeGenome_error_exact:
  "(isl (decodeGenome genome) \<longleftrightarrow> length genome < 272 \<and> length genome mod 8 \<noteq> 0)
   \<and> (decodeGenome genome = Inl WrongNumbersGenome
        \<longleftrightarrow> length genome < 272 \<and> length genome mod 8 \<noteq> 0)
   \<and> (272 \<le> length genome \<or> length genome mod 8 = 0 \<longrightarrow>
        (\<exists>decoded. decodeGenome genome = Inr decoded
           \<and> map Inr (engineFormulaCoefficients decoded) =
               map (\<lambda>k. decodeNumber (slice genome (8 * k) (8 * k + 8)))
                 [0..<min (length genome) 136 div 8]
           \<and> map Inr (wheelsFormulaCoefficients decoded) =
               map (\<lambda>k. decodeNumber (slice genome (136 + 8 * k) (136 + 8 * k + 8)))
                 [0..<(min (length genome) 272 - 136) div 8]))"
proof -
  have 1: "isl (decodeGenome genome) \<longleftrightarrow> length genome < 272 \<and> length genome mod 8 \<noteq> 0"
    by (rule decodeGenome_isl)
  have 2: "decodeGenome genome = Inl WrongNumbersGenome
        \<longleftrightarrow> length genome < 272 \<and> length genome mod 8 \<noteq> 0"
    using decodeGenome_isl[of genome] decodeGenome_error[of genome] by auto
  have 3: "\<exists>decoded. decodeGenome genome = Inr decoded
           \<and> map Inr (engineFormulaCoefficients decoded) =
               map (\<lambda>k. decodeNumber (slice genome (8 * k) (8 * k + 8)))
                 [0..<min (length genome) 136 div 8]
           \<and> map Inr (wheelsFormulaCoefficients decoded) =
               map (\<lambda>k. decodeNumber (slice genome (136 + 8 * k) (136 + 8 * k + 8)))
                 [0..<(min (length genome) 272 - 136) div 8]"
    if ok: "272 \<le> length genome \<or> length genome mod 8 = 0"
  proof -
    have be: "0 + 8 * k + 8 \<le> length genome" if "k < min (length genome) 136 div 8" for k
      using that by simp
    have bw: "136 + 8 * k + 8 \<le> length genome" if "k < (min (length genome) 272 - 136) div 8" for k
      using that by simp
    from map_Inr_projr_blocks[of "min (length genome) 136 div 8" 0 genome, OF be]
    have me: "map Inr (map (\<lambda>k. projr (decodeNumber (slice genome (8 * k) (8 * k + 8))))
                [0..<min (length genome) 136 div 8])
        = map (\<lambda>k. decodeNumber (slice genome (8 * k) (8 * k + 8)))
            [0..<min (length genome) 136 div 8]"
      by simp
    note mw = map_Inr_projr_blocks[of "(min (length genome) 272 - 136) div 8" 136 genome, OF bw]
    show ?thesis
      using decodeGenome_any_length[OF ok] me mw by simp
  qed
  from 1 2 3 show ?thesis by blast
qed

theorem decodeGenome_error_exact_witness:
  "length [G1, G0, G1] < 272 \<and> length [G1, G0, G1] mod 8 \<noteq> 0
   \<and> decodeGenome [G1, G0, G1] = Inl WrongNumbersGenome
   \<and> 272 \<le> length (replicate 273 G1)
   \<and> (\<exists>decoded. decodeGenome (replicate 273 G1) = Inr decoded
        \<and> length (engineFormulaCoefficients decoded) = 17
        \<and> length (wheelsFormulaCoefficients decoded) = 17)"
proof -
  have a: "length [G1, G0, G1] < 272 \<and> length [G1, G0, G1] mod 8 \<noteq> 0" by simp
  have b: "272 \<le> length (replicate 273 G1) \<or> length (replicate 273 G1) mod 8 = 0" by simp
  from decodeGenome_error_exact [of "[G1, G0, G1]"] a
  have 1: "decodeGenome [G1, G0, G1] = Inl WrongNumbersGenome" by blast
  from decodeGenome_error_exact [of "replicate 273 G1"] b
  obtain decoded where d: "decodeGenome (replicate 273 G1) = Inr decoded"
    "map Inr (engineFormulaCoefficients decoded) =
       map (\<lambda>k. decodeNumber (slice (replicate 273 G1) (8 * k) (8 * k + 8)))
         [0..<min (length (replicate 273 G1)) 136 div 8]"
    "map Inr (wheelsFormulaCoefficients decoded) =
       map (\<lambda>k. decodeNumber (slice (replicate 273 G1) (136 + 8 * k) (136 + 8 * k + 8)))
         [0..<(min (length (replicate 273 G1)) 272 - 136) div 8]"
    by blast
  from arg_cong[OF d(2), of length]
  have le: "length (engineFormulaCoefficients decoded) = 17" by simp
  from arg_cong[OF d(3), of length]
  have lw: "length (wheelsFormulaCoefficients decoded) = 17" by simp
  from a 1 d(1) le lw show ?thesis by simp
qed

subsection \<open>Formula evaluator\<close>

text \<open>
  C8. When the number of coefficients is not the number of sensors plus 1, the evaluation
  raises its error: \<open>linearPolynomial\<close> returns the error, and \<open>engineFormula\<close> and
  \<open>wheelsFormula\<close> pass it on to their caller instead of a category. For a genome of 272
  genes that is every sensor list whose length is not 16.
\<close>

theorem mismatch_raises:
  "(length coefficients \<noteq> length sensorValues + 1 \<longrightarrow>
      linearPolynomial coefficients sensorValues = Inl IncompatiblePolynomial)
   \<and> (decodeGenome genome = Inr decoded
        \<and> length (engineFormulaCoefficients decoded) \<noteq> length sensors + 1 \<longrightarrow>
      engineFormula genome sensors = Inl IncompatiblePolynomial)
   \<and> (decodeGenome genome = Inr decoded
        \<and> length (wheelsFormulaCoefficients decoded) \<noteq> length sensors + 1 \<longrightarrow>
      wheelsFormula genome sensors = Inl IncompatiblePolynomial)
   \<and> (length genome272 = 272 \<and> length sensors \<noteq> 16 \<longrightarrow>
      engineFormula genome272 sensors = Inl IncompatiblePolynomial
      \<and> wheelsFormula genome272 sensors = Inl IncompatiblePolynomial)"
proof -
  have "engineFormula genome272 sensors = Inl IncompatiblePolynomial
      \<and> wheelsFormula genome272 sensors = Inl IncompatiblePolynomial"
    if len: "length genome272 = 272" and ne: "length sensors \<noteq> 16"
  proof -
    from len obtain d where d: "decodeGenome genome272 = Inr d"
      "length (engineFormulaCoefficients d) = 17" "length (wheelsFormulaCoefficients d) = 17"
      by (rule decodeGenome_272_lengths)
    from ne d(2) have e: "length (engineFormulaCoefficients d) \<noteq> length sensors + 1" by simp
    from ne d(3) have w: "length (wheelsFormulaCoefficients d) \<noteq> length sensors + 1" by simp
    from engineFormula_mismatch[OF d(1) e] wheelsFormula_mismatch[OF d(1) w] show ?thesis by simp
  qed
  then show ?thesis
    using linearPolynomial_error[of coefficients sensorValues]
      engineFormula_mismatch[of genome decoded sensors]
      wheelsFormula_mismatch[of genome decoded sensors]
    by blast
qed

theorem mismatch_raises_witness:
  "length [1, 2 :: real] \<noteq> length ([] :: real list) + 1
   \<and> linearPolynomial [1, 2] [] = Inl IncompatiblePolynomial
   \<and> decodeGenome [G0, G0, G0, G0, G0, G0, G0, G1] =
       Inr \<lparr>engineFormulaCoefficients = [1 / 1000], wheelsFormulaCoefficients = []\<rparr>
   \<and> length [1 / 1000 :: real] \<noteq> length [7 :: real] + 1
   \<and> length ([] :: real list) \<noteq> length [7 :: real] + 1
   \<and> engineFormula [G0, G0, G0, G0, G0, G0, G0, G1] [7] = Inl IncompatiblePolynomial
   \<and> wheelsFormula [G0, G0, G0, G0, G0, G0, G0, G1] [7] = Inl IncompatiblePolynomial
   \<and> length (replicate 272 G1) = 272 \<and> length [7 :: real] \<noteq> 16
   \<and> engineFormula (replicate 272 G1) [7] = Inl IncompatiblePolynomial
   \<and> wheelsFormula (replicate 272 G1) [7] = Inl IncompatiblePolynomial"
  using mismatch_raises [of "[1, 2]" "[]" "[G0, G0, G0, G0, G0, G0, G0, G1]"
      "\<lparr>engineFormulaCoefficients = [1 / 1000], wheelsFormulaCoefficients = []\<rparr>" "[7]"
      "replicate 272 G1"]
    decodeGenome_one_block
  by simp

text \<open>
  C9. For a genome of exactly 272 genes and exactly 16 sensor values, \<open>engineFormula\<close> and
  \<open>wheelsFormula\<close> raise no error and return one of -1, 0, +1: the genome decodes (so no
  check of the block decoder or of the codec fired, since an error there is passed on), and
  the linear polynomial of each block accepts the sensors.
\<close>

theorem formulas_total_on_valid_input:
  assumes "length genome = 272" and "length sensors = 16"
  shows "\<exists>decoded rawEngine rawWheels.
           decodeGenome genome = Inr decoded
         \<and> linearPolynomial (engineFormulaCoefficients decoded) sensors = Inr rawEngine
         \<and> linearPolynomial (wheelsFormulaCoefficients decoded) sensors = Inr rawWheels
         \<and> engineFormula genome sensors =
             Inr (sigmoidToCategorical (sigmoid rawEngine) aroundZeroMargin_default)
         \<and> wheelsFormula genome sensors =
             Inr (sigmoidToCategorical (sigmoid rawWheels) aroundZeroMargin_default)
         \<and> sigmoidToCategorical (sigmoid rawEngine) aroundZeroMargin_default \<in> {- 1, 0, 1}
         \<and> sigmoidToCategorical (sigmoid rawWheels) aroundZeroMargin_default \<in> {- 1, 0, 1}"
proof -
  from assms(1) obtain d where d: "decodeGenome genome = Inr d"
    "length (engineFormulaCoefficients d) = 17" "length (wheelsFormulaCoefficients d) = 17"
    by (rule decodeGenome_272_lengths)
  from d(2) assms(2) have "length (engineFormulaCoefficients d) = length sensors + 1" by simp
  then obtain re where re: "linearPolynomial (engineFormulaCoefficients d) sensors = Inr re"
    using linearPolynomial_Inr by blast
  from d(3) assms(2) have "length (wheelsFormulaCoefficients d) = length sensors + 1" by simp
  then obtain rw where rw: "linearPolynomial (wheelsFormulaCoefficients d) sensors = Inr rw"
    using linearPolynomial_Inr by blast
  have e: "engineFormula genome sensors =
      Inr (sigmoidToCategorical (sigmoid re) aroundZeroMargin_default)"
    by (simp add: engineFormula_def d(1) re)
  have w: "wheelsFormula genome sensors =
      Inr (sigmoidToCategorical (sigmoid rw) aroundZeroMargin_default)"
    by (simp add: wheelsFormula_def d(1) rw)
  from d(1) re rw e w sigmoidToCategorical_range[of "sigmoid re" aroundZeroMargin_default]
    sigmoidToCategorical_range[of "sigmoid rw" aroundZeroMargin_default]
  show ?thesis by blast
qed

theorem formulas_total_on_valid_input_witness:
  "length (replicate 272 G1) = 272 \<and> length (replicate 16 (0::real)) = 16
   \<and> (\<exists>r. engineFormula (replicate 272 G1) (replicate 16 0) = Inr r \<and> r \<in> {- 1, 0, 1})
   \<and> (\<exists>r. wheelsFormula (replicate 272 G1) (replicate 16 0) = Inr r \<and> r \<in> {- 1, 0, 1})"
proof -
  have h1: "length (replicate 272 G1) = 272" by simp
  have h2: "length (replicate 16 (0::real)) = 16" by simp
  from formulas_total_on_valid_input [OF h1 h2] h1 h2 show ?thesis by blast
qed

text \<open>
  C10. For two genomes of exactly 272 genes: if they agree on genes 0 to 135, then
  \<open>engineFormula\<close> gives the same result on both for every sensor input; if they agree on
  genes 136 to 271, then \<open>wheelsFormula\<close> does.
\<close>

theorem formulas_depend_on_own_block:
  assumes "length genomeA = 272" and "length genomeB = 272"
  shows "((\<forall>i<136. genomeA ! i = genomeB ! i) \<longrightarrow>
            engineFormula genomeA sensors = engineFormula genomeB sensors)
       \<and> ((\<forall>i. 136 \<le> i \<and> i < 272 \<longrightarrow> genomeA ! i = genomeB ! i) \<longrightarrow>
            wheelsFormula genomeA sensors = wheelsFormula genomeB sensors)"
proof (intro conjI impI)
  assume "\<forall>i<136. genomeA ! i = genomeB ! i"
  then have "take 136 genomeA = take 136 genomeB"
    using assms by (intro take_eq_nth) simp_all
  then show "engineFormula genomeA sensors = engineFormula genomeB sensors"
    by (simp add: engineFormula_272 assms)
next
  assume "\<forall>i. 136 \<le> i \<and> i < 272 \<longrightarrow> genomeA ! i = genomeB ! i"
  then have "drop 136 genomeA = drop 136 genomeB"
    using assms by (intro drop_eq_nth) simp_all
  then show "wheelsFormula genomeA sensors = wheelsFormula genomeB sensors"
    by (simp add: wheelsFormula_272 assms)
qed

theorem formulas_depend_on_own_block_witness:
  "length (replicate 272 G0) = 272 \<and> length (replicate 136 G0 @ replicate 136 G1) = 272
   \<and> take 136 (replicate 272 G0) = take 136 (replicate 136 G0 @ replicate 136 G1)
   \<and> replicate 272 G0 \<noteq> replicate 136 G0 @ replicate 136 G1
   \<and> engineFormula (replicate 272 G0) [1, 2, 3, 4, 5, 6, 7, 8, 9, 10, 11, 12, 13, 14, 15, 16]
       = engineFormula (replicate 136 G0 @ replicate 136 G1)
           [1, 2, 3, 4, 5, 6, 7, 8, 9, 10, 11, 12, 13, 14, 15, 16]
   \<and> length (replicate 136 G1 @ replicate 136 G0) = 272
   \<and> drop 136 (replicate 136 G1 @ replicate 136 G0) = drop 136 (replicate 272 G0)
   \<and> replicate 136 G1 @ replicate 136 G0 \<noteq> replicate 272 G0
   \<and> wheelsFormula (replicate 136 G1 @ replicate 136 G0)
         [1, 2, 3, 4, 5, 6, 7, 8, 9, 10, 11, 12, 13, 14, 15, 16]
       = wheelsFormula (replicate 272 G0) [1, 2, 3, 4, 5, 6, 7, 8, 9, 10, 11, 12, 13, 14, 15, 16]"
proof -
  have a: "length (replicate 272 G0) = 272" "length (replicate 136 G0 @ replicate 136 G1) = 272"
    "length (replicate 136 G1 @ replicate 136 G0) = 272"
    by simp_all
  have e: "\<forall>i<136. replicate 272 G0 ! i = (replicate 136 G0 @ replicate 136 G1) ! i"
    by (simp add: nth_append)
  have w: "\<forall>i. 136 \<le> i \<and> i < 272 \<longrightarrow>
          (replicate 136 G1 @ replicate 136 G0) ! i = replicate 272 G0 ! i"
    by (auto simp: nth_append)
  have te: "take 136 (replicate 272 G0) = take 136 (replicate 136 G0 @ replicate 136 G1)"
    by simp
  have dw: "drop 136 (replicate 136 G1 @ replicate 136 G0) = drop 136 (replicate 272 G0)"
    by simp
  have ne: "replicate 272 G0 \<noteq> replicate 136 G0 @ replicate 136 G1"
  proof
    assume "replicate 272 G0 = replicate 136 G0 @ replicate 136 G1"
    then have "replicate 272 G0 ! 136 = (replicate 136 G0 @ replicate 136 G1) ! 136" by simp
    then show False by (simp add: nth_append)
  qed
  have ne': "replicate 136 G1 @ replicate 136 G0 \<noteq> replicate 272 G0"
  proof
    assume "replicate 136 G1 @ replicate 136 G0 = replicate 272 G0"
    then have "(replicate 136 G1 @ replicate 136 G0) ! 0 = replicate 272 G0 ! 0" by simp
    then show False by (simp add: nth_append)
  qed
  from formulas_depend_on_own_block [OF a(1) a(2)] formulas_depend_on_own_block [OF a(3) a(1)]
    a e w te dw ne ne'
  show ?thesis by blast
qed

subsection \<open>Categorical mapping\<close>

text \<open>
  C5. With the default margin 0.5 the categorical mapping of a value v is +1 when
  v > 0.75, -1 when v < 0.25 and 0 otherwise, so 0.75, 0.25 and 0.5 map to 0; 0.76 maps
  to 1, 0.24 to -1 and 0.6 to 0.
\<close>

theorem sigmoidToCategorical_default:
  "sigmoidToCategorical v aroundZeroMargin_default =
     (if v > 0.75 then 1 else if v < 0.25 then - 1 else 0)
   \<and> sigmoidToCategorical 0.75 aroundZeroMargin_default = 0
   \<and> sigmoidToCategorical 0.25 aroundZeroMargin_default = 0
   \<and> sigmoidToCategorical 0.5 aroundZeroMargin_default = 0
   \<and> sigmoidToCategorical 0.76 aroundZeroMargin_default = 1
   \<and> sigmoidToCategorical 0.24 aroundZeroMargin_default = - 1
   \<and> sigmoidToCategorical 0.6 aroundZeroMargin_default = 0"
  by (simp add: sigmoidToCategorical_def aroundZeroMargin_default_def)

end
